theory Spec2Isabelle
  imports Main "HOL-Library.List_Lexorder" "HOL-Library.Monad_Syntax"
begin

section \<open>Python strings and integers\<close>

text \<open>
  A Python \<open>str\<close> is a sequence of Unicode code points (surrogates included), so it is
  modelled as a list of naturals. \<open>lit\<close> turns an ASCII literal into such a string.
  The orders \<open><\<close> and \<open>\<le>\<close> on \<open>pystr\<close> are the lexicographic ones, as Python compares
  strings.
\<close>

type_synonym pystr = "nat list"

definition lit :: "string \<Rightarrow> pystr" where
  "lit s = map of_char s"

text \<open>\<open>int.__repr__\<close>: decimal digits, most significant first, with a leading minus sign.\<close>

function digits :: "nat \<Rightarrow> pystr" where
  "digits n = (if n < 10 then [48 + n] else digits (n div 10) @ [48 + n mod 10])"
  by pat_completeness auto
termination
  by (relation "measure id") auto

declare digits.simps [simp del]

definition str_int :: "int \<Rightarrow> pystr" where
  "str_int i = (if i < 0 then 45 # digits (nat (- i)) else digits (nat i))"

fun join :: "pystr \<Rightarrow> pystr list \<Rightarrow> pystr" where
  "join sep [] = []"
| "join sep [x] = x"
| "join sep (x # y # ys) = x @ sep @ join sep (y # ys)"

section \<open>The values that are rendered, and \<open>json.dump\<close>\<close>

text \<open>
  \<open>Jsonable\<close> values: \<open>None\<close>, booleans, integers, strings, lists and dictionaries with string
  keys. A dictionary is the list of its items in insertion order; its keys are distinct
  (\<open>wf_json\<close>). Floating-point numbers are not part of the model.
\<close>

datatype json =
    JNull
  | JBool bool
  | JInt int
  | JStr pystr
  | JList "json list"
  | JDict "(pystr \<times> json) list"


text \<open>
  \<open>json.encoder.py_encode_basestring_ascii\<close> (\<open>ensure_ascii\<close> is left at its default):
  the short escapes of \<open>ESCAPE_DCT\<close>, printable ASCII unchanged, every other code point as
  \<open>\uXXXX\<close> with lower-case digits, and a code point from \<open>0x10000\<close> on as a surrogate pair.
\<close>

definition hexdigit :: "nat \<Rightarrow> nat" where
  "hexdigit d = (if d < 10 then 48 + d else 87 + d)"

definition hex4 :: "nat \<Rightarrow> pystr" where
  "hex4 n = [hexdigit (n div 4096 mod 16), hexdigit (n div 256 mod 16),
             hexdigit (n div 16 mod 16), hexdigit (n mod 16)]"

definition uescape :: "nat \<Rightarrow> pystr" where
  "uescape n = [92, 117] @ hex4 n"

definition escape_char :: "nat \<Rightarrow> pystr" where
  "escape_char c =
     (if c = 92 then [92, 92]
      else if c = 34 then [92, 34]
      else if c = 8 then [92, 98]
      else if c = 12 then [92, 102]
      else if c = 10 then [92, 110]
      else if c = 13 then [92, 114]
      else if c = 9 then [92, 116]
      else if 32 \<le> c \<and> c \<le> 126 then [c]
      else if c < 65536 then uescape c
      else (let n = c - 65536
            in uescape (55296 + n div 1024 mod 1024) @ uescape (56320 + n mod 1024)))"

definition encode_basestring_ascii :: "pystr \<Rightarrow> pystr" where
  "encode_basestring_ascii s = [34] @ concat (map escape_char s) @ [34]"

text \<open>
  \<open>json.encoder._make_iterencode\<close>: \<open>indent\<close> is the number of spaces per level or
  \<open>None\<close>, \<open>lvl\<close> the current indent level. With \<open>sort_keys\<close> the items of a dictionary
  are emitted in the order of \<open>sorted\<close>; the keys are distinct, so that is the order of the
  keys.
\<close>

definition newline_indent :: "nat \<Rightarrow> nat \<Rightarrow> pystr" where
  "newline_indent n lvl = 10 # replicate (n * lvl) 32"

definition dict_items :: "bool \<Rightarrow> (pystr \<times> json) list \<Rightarrow> (pystr \<times> json) list" where
  "dict_items sk kvs = (if sk then sort_key fst kvs else kvs)"

function iterencode :: "nat option \<Rightarrow> pystr \<Rightarrow> pystr \<Rightarrow> bool \<Rightarrow> nat \<Rightarrow> json \<Rightarrow> pystr" where
  "iterencode indent isep ksep sk lvl JNull = lit ''null''"
| "iterencode indent isep ksep sk lvl (JBool b) = (if b then lit ''true'' else lit ''false'')"
| "iterencode indent isep ksep sk lvl (JInt i) = str_int i"
| "iterencode indent isep ksep sk lvl (JStr s) = encode_basestring_ascii s"
| "iterencode indent isep ksep sk lvl (JList xs) =
     (if xs = [] then lit ''[]''
      else (case indent of
              None \<Rightarrow>
                [91] @ join isep (map (iterencode indent isep ksep sk lvl) xs) @ [93]
            | Some n \<Rightarrow>
                [91] @ newline_indent n (lvl + 1)
                @ join (isep @ newline_indent n (lvl + 1))
                    (map (iterencode indent isep ksep sk (lvl + 1)) xs)
                @ newline_indent n lvl @ [93]))"
| "iterencode indent isep ksep sk lvl (JDict kvs) =
     (if kvs = [] then lit ''{}''
      else (case indent of
              None \<Rightarrow>
                [123]
                @ join isep
                    (map (\<lambda>(k, v). encode_basestring_ascii k @ ksep
                                     @ iterencode indent isep ksep sk lvl v)
                       (dict_items sk kvs))
                @ [125]
            | Some n \<Rightarrow>
                [123] @ newline_indent n (lvl + 1)
                @ join (isep @ newline_indent n (lvl + 1))
                    (map (\<lambda>(k, v). encode_basestring_ascii k @ ksep
                                     @ iterencode indent isep ksep sk (lvl + 1) v)
                       (dict_items sk kvs))
                @ newline_indent n lvl @ [125]))"
  by pat_completeness auto
termination
  by (relation "measure (\<lambda>(indent, isep, ksep, sk, lvl, v). size v)")
     (auto simp: dict_items_def less_Suc_eq_le size_list_estimation' split: if_splits
           dest!: size_list_estimation'[where f = "size_prod (\<lambda>_. 0) size", OF _ order_refl])

text \<open>
  \<open>json.dump\<close>/\<open>json.dumps\<close> with the keyword arguments the program uses. Without
  \<open>separators\<close> the item separator is \<open>','\<close> when \<open>indent\<close> is given and \<open>', '\<close> otherwise,
  and the key separator is \<open>': '\<close>.
\<close>

definition json_dumps :: "nat option \<Rightarrow> (pystr \<times> pystr) option \<Rightarrow> bool \<Rightarrow> json \<Rightarrow> pystr" where
  "json_dumps indent separators sk v =
     (case separators of
        Some (isep, ksep) \<Rightarrow> iterencode indent isep ksep sk 0 v
      | None \<Rightarrow>
          iterencode indent (if indent = None then lit '', '' else lit '','') (lit '': '') sk 0 v)"

section \<open>Failures\<close>

text \<open>
  The exceptions the program raises or meets. \<open>CmdExitError\<close> and its subclass
  \<open>ArgparseExitError\<close> carry \<open>exit_code\<close> and the message given to \<open>RuntimeError\<close>;
  \<open>CalledProcessError\<close> carries the return code and the command; \<open>OtherException\<close> is any
  other subclass of \<open>Exception\<close>, with its class name and its \<open>str()\<close>. \<open>SystemExit\<close> derives
  from \<open>BaseException\<close> only, so \<open>except Exception\<close> does not catch it.
\<close>

datatype py_exc =
    CmdExitError int pystr
  | ArgparseExitError int pystr
  | CalledProcessError int "pystr list"
  | OtherException pystr pystr
  | SystemExit int

definition default_exit_msg :: "int \<Rightarrow> pystr option \<Rightarrow> pystr" where
  "default_exit_msg exit_code msg =
     (case msg of
        None \<Rightarrow> lit ''Command exited with return code '' @ str_int exit_code
      | Some m \<Rightarrow> m)"

definition new_CmdExitError :: "int \<Rightarrow> pystr option \<Rightarrow> py_exc" where
  "new_CmdExitError exit_code msg = CmdExitError exit_code (default_exit_msg exit_code msg)"

definition new_ArgparseExitError :: "int \<Rightarrow> pystr option \<Rightarrow> py_exc" where
  "new_ArgparseExitError exit_code msg =
     ArgparseExitError exit_code (default_exit_msg exit_code msg)"

fun is_CmdExitError :: "py_exc \<Rightarrow> bool" where
  "is_CmdExitError (CmdExitError c m) = True"
| "is_CmdExitError (ArgparseExitError c m) = True"
| "is_CmdExitError _ = False"

fun is_ArgparseExitError :: "py_exc \<Rightarrow> bool" where
  "is_ArgparseExitError (ArgparseExitError c m) = True"
| "is_ArgparseExitError _ = False"

fun is_Exception :: "py_exc \<Rightarrow> bool" where
  "is_Exception (SystemExit c) = False"
| "is_Exception _ = True"

fun exit_code :: "py_exc \<Rightarrow> int option" where
  "exit_code (CmdExitError c m) = Some c"
| "exit_code (ArgparseExitError c m) = Some c"
| "exit_code _ = None"

text \<open>
  \<open>str(ex)\<close>. For \<open>CalledProcessError\<close> the command is shown as the \<open>repr\<close> of a list of
  plain words (no quote, backslash or unprintable character, as for the words of the \<open>jq\<close>
  command), and \<open>sig\<close> gives \<open>repr(signal.Signals(n))\<close> for the signals the platform knows.
\<close>

definition repr_words :: "pystr list \<Rightarrow> pystr" where
  "repr_words ws = [91] @ join (lit '', '') (map (\<lambda>w. [39] @ w @ [39]) ws) @ [93]"

fun str_exc :: "(nat \<Rightarrow> pystr option) \<Rightarrow> py_exc \<Rightarrow> pystr" where
  "str_exc sig (CmdExitError c m) = m"
| "str_exc sig (ArgparseExitError c m) = m"
| "str_exc sig (CalledProcessError rc cmd) =
     (if rc < 0 then
        (case sig (nat (- rc)) of
           Some r \<Rightarrow> lit ''Command '' @ [39] @ repr_words cmd @ [39] @ lit '' died with '' @ r
                     @ lit ''.''
         | None \<Rightarrow> lit ''Command '' @ [39] @ repr_words cmd @ [39]
                     @ lit '' died with unknown signal '' @ str_int (- rc) @ lit ''.'')
      else lit ''Command '' @ [39] @ repr_words cmd @ [39]
           @ lit '' returned non-zero exit status '' @ str_int rc @ lit ''.'')"
| "str_exc sig (OtherException cls m) = m"
| "str_exc sig (SystemExit c) = str_int c"

section \<open>The process around one run\<close>

datatype stream = Stdout | Stderr

datatype dest = ToStream stream | ToFile pystr

datatype loglevel = Critical | Error | Warning | Info | Debug

datatype subcommand = Version | Test

text \<open>The attributes of the parsed \<open>argparse.Namespace\<close>, \<open>func\<close> apart.\<close>

record namespace =
  ns_traceback :: bool
  ns_loglevel :: loglevel
  ns_monochrome :: bool
  ns_compact :: bool
  ns_raw :: bool
  ns_output_file :: "pystr option"
  ns_text_encoding :: pystr
  ns_cwd :: pystr
  ns_aws_profile :: "pystr option"
  ns_aws_region :: "pystr option"
  ns_venv_dir :: "pystr option"

text \<open>
  What \<open>parse_args\<close> of \<open>argparse\<close> does with an argument list, for the grammar declared in
  \<open>run\<close>: it recognises the options and the subcommand (if one is given), or it prints
  (help to the standard output, usage to the standard error) and calls the parser's \<open>exit\<close>
  method with a status and an optional message.
\<close>

datatype parse_outcome =
    Recognized namespace "subcommand option"
  | CallsExit pystr pystr int "pystr option"

text \<open>What \<open>subprocess.Popen\<close> with \<open>communicate\<close> does: it cannot start the command, or
  the command writes to its standard output and exits with a return code.\<close>

datatype popen_outcome =
    PopenFails py_exc
  | Exited int pystr

text \<open>A cloud session remembers which construction made it; so does a storage client.\<close>

datatype session = Session nat "pystr option" "pystr option"

datatype s3client = S3Client nat session pystr

text \<open>
  The state of the process and of its surroundings. The first group is what the run can
  change; the second is what the surroundings answer (the terminal, the file system, the
  \<open>jq\<close> executable, \<open>argparse\<close>, the cloud library, constants of modules that are not part of
  \<open>cli.py\<close>). The text streams accept every string.
\<close>

record world =
  stdout_text :: pystr
  stderr_text :: pystr
  files :: "pystr \<rightharpoonup> pystr"
  sys_stdout_wrapped :: bool
  sys_stderr_wrapped :: bool
  colorama_initialised :: bool
  root_level :: int
  root_handlers :: nat
  logger_level :: "pystr \<rightharpoonup> int"
  session_calls :: "(pystr option \<times> pystr option) list"
  client_calls :: "(session \<times> pystr) list"
  sys_argv :: "pystr list"
  argparse :: "pystr list \<Rightarrow> parse_outcome"
  stdout_isatty :: bool
  stderr_isatty :: bool
  should_wrap :: "stream \<Rightarrow> bool"
  open_error :: "pystr \<Rightarrow> pystr \<Rightarrow> py_exc option"
  popen :: "pystr list \<Rightarrow> pystr \<Rightarrow> popen_outcome"
  session_error :: "nat \<Rightarrow> py_exc option"
  client_error :: "nat \<Rightarrow> py_exc option"
  abspath_expanduser :: "pystr \<Rightarrow> pystr"
  signal_repr :: "nat \<Rightarrow> pystr option"
  repr_vars :: "namespace \<Rightarrow> pystr"
  pkg_version :: pystr

definition stream_write :: "stream \<Rightarrow> pystr \<Rightarrow> world \<Rightarrow> world" where
  "stream_write f text w =
     (case f of
        Stdout \<Rightarrow> w\<lparr>stdout_text := stdout_text w @ text\<rparr>
      | Stderr \<Rightarrow> w\<lparr>stderr_text := stderr_text w @ text\<rparr>)"

definition write_dest :: "dest \<Rightarrow> pystr \<Rightarrow> world \<Rightarrow> world" where
  "write_dest f text w =
     (case f of
        ToStream st \<Rightarrow> stream_write st text w
      | ToFile path \<Rightarrow>
          w\<lparr>files := (files w)(path \<mapsto> (case files w path of None \<Rightarrow> [] | Some t \<Rightarrow> t) @ text)\<rparr>)"

definition print :: "pystr \<Rightarrow> stream \<Rightarrow> world \<Rightarrow> world" where
  "print text f w = stream_write f (text @ [10]) w"

definition is_colorizable :: "stream \<Rightarrow> world \<Rightarrow> bool" where
  "is_colorizable f w = (case f of Stdout \<Rightarrow> stdout_isatty w | Stderr \<Rightarrow> stderr_isatty w)"

section \<open>\<open>CommandLineInterface\<close>\<close>

text \<open>The attributes of an instance; \<open>_args\<close> and \<open>_cwd\<close> have no value before \<open>run\<close> sets
  them.\<close>

record cli =
  self_argv :: "pystr list option"
  self_args :: "namespace option"
  self_cwd :: "pystr option"
  self_raw_stdout :: stream
  self_raw_stderr :: stream
  self_raw :: bool
  self_compact :: bool
  self_output_file :: "pystr option"
  self_encoding :: pystr
  self_colorize_stdout :: bool
  self_colorize_stderr :: bool
  self_aws_session :: "session option"
  self_s3 :: "s3client option"

definition CommandLineInterface :: "pystr list option \<Rightarrow> cli" where
  "CommandLineInterface argv =
     \<lparr>self_argv = argv, self_args = None, self_cwd = None,
      self_raw_stdout = Stdout, self_raw_stderr = Stderr,
      self_raw = False, self_compact = False, self_output_file = None,
      self_encoding = lit ''utf-8'',
      self_colorize_stdout = False, self_colorize_stderr = False,
      self_aws_session = None, self_s3 = None\<rparr>"

definition ocolor :: "cli \<Rightarrow> pystr \<Rightarrow> pystr" where
  "ocolor self codes = (if self_colorize_stdout self then codes else [])"

definition ecolor :: "cli \<Rightarrow> pystr \<Rightarrow> pystr" where
  "ecolor self codes = (if self_colorize_stderr self then codes else [])"

text \<open>\<open>colorama.Fore.RED\<close> and \<open>colorama.Style.RESET_ALL\<close>.\<close>

definition Fore_RED :: pystr where
  "Fore_RED = 27 # lit ''[31m''"

definition Style_RESET_ALL :: pystr where
  "Style_RESET_ALL = 27 # lit ''[0m''"

subsection \<open>The cloud session and the storage client\<close>



definition AttributeError :: "pystr \<Rightarrow> py_exc" where
  "AttributeError name =
     OtherException (lit ''AttributeError'')
       (lit ''.CommandLineInterface. object has no attribute .'' @ name @ lit ''.'')"



subsection \<open>\<open>pretty_print\<close>\<close>

text \<open>
  \<open>emit_to\<close>, the local function of \<open>pretty_print\<close>. \<open>f is sys.stdout\<close> holds exactly when
  \<open>f\<close> is the standard output, and a file that was just opened is neither stream. The
  \<open>jq\<close> process writes to the destination itself.
\<close>

definition jq_cmd :: "bool \<Rightarrow> pystr list" where
  "jq_cmd compact = [lit ''jq''] @ (if compact then [lit ''-c''] else []) @ [lit ''.'']"

definition emit_to ::
    "cli \<Rightarrow> json \<Rightarrow> bool \<Rightarrow> bool \<Rightarrow> dest \<Rightarrow> world \<Rightarrow> (py_exc + unit) \<times> world" where
  "emit_to self val compact colorize f w =
     (let final_colorize =
            (colorize \<and> ((f = ToStream Stdout \<and> self_colorize_stdout self)
                        \<or> (f = ToStream Stderr \<and> self_colorize_stderr self)))
      in if \<not> final_colorize then
           (Inr (),
            write_dest f [10]
              (write_dest f
                 (if compact then json_dumps None (Some (lit '','', lit '':'')) True val
                  else json_dumps (Some 2) None True val) w))
         else
           (let jq_input = json_dumps None (Some (lit '','', lit '':'')) True val;
                cmd = jq_cmd compact
            in case popen w cmd jq_input of
                 PopenFails ex \<Rightarrow> (Inl ex, w)
               | Exited rc out \<Rightarrow>
                   (if rc \<noteq> 0 then (Inl (CalledProcessError rc cmd), write_dest f out w)
                    else (Inr (), write_dest f out w))))"

text \<open>\<open>isinstance(value, str)\<close>, with the string.\<close>

fun as_str :: "json \<Rightarrow> pystr option" where
  "as_str (JStr s) = Some s"
| "as_str _ = None"

definition pretty_print ::
    "cli \<Rightarrow> json \<Rightarrow> bool option \<Rightarrow> bool option \<Rightarrow> bool option \<Rightarrow> world
       \<Rightarrow> (py_exc + unit) \<times> world" where
  "pretty_print self val compact colorize raw w =
     (let raw' = (case raw of None \<Rightarrow> self_raw self | Some r \<Rightarrow> r)
      in case (if raw' then as_str val else None) of
           Some s \<Rightarrow> (Inr (), stream_write (self_raw_stdout self) s w)
         | None \<Rightarrow>
           (let compact' = (case compact of None \<Rightarrow> self_compact self | Some c \<Rightarrow> c);
                colorize' = (case colorize of None \<Rightarrow> True | Some c \<Rightarrow> c)
            in case self_output_file self of
                 None \<Rightarrow> emit_to self val compact' colorize' (ToStream Stdout) w
               | Some output_file \<Rightarrow>
                   (case open_error w output_file (self_encoding self) of
                      Some ex \<Rightarrow> (Inl ex, w)
                    | None \<Rightarrow>
                        emit_to self val compact' colorize' (ToFile output_file)
                          (w\<lparr>files := (files w)(output_file \<mapsto> [])\<rparr>))))"

subsection \<open>The command handlers\<close>

text \<open>A handler is what \<open>args.func\<close> holds: a bound method that returns the exit code or
  raises.\<close>

type_synonym handler = "cli \<Rightarrow> world \<Rightarrow> (py_exc + int) \<times> cli \<times> world"

definition cmd_bare :: handler where
  "cmd_bare self w = (Inr 1, self, print (lit ''A command is required'') Stderr w)"

definition cmd_version :: handler where
  "cmd_version self w =
     (case pretty_print self (JStr (pkg_version w)) None None None w of
        (Inl ex, w') \<Rightarrow> (Inl ex, self, w')
      | (Inr u, w') \<Rightarrow> (Inr 0, self, w'))"

definition cmd_test :: handler where
  "cmd_test self w =
     (case self_args self of
        None \<Rightarrow> (Inl (AttributeError (lit ''_args'')), self, w)
      | Some args \<Rightarrow>
          (Inr 0, self, print (lit ''Test command, args='' @ repr_vars w args) Stdout w))"

text \<open>\<open>set_defaults(func=...)\<close> of the main parser and of the two subparsers.\<close>

definition func_of :: "subcommand option \<Rightarrow> handler" where
  "func_of sub =
     (case sub of
        None \<Rightarrow> cmd_bare
      | Some Version \<Rightarrow> cmd_version
      | Some Test \<Rightarrow> cmd_test)"

subsection \<open>Parsing the arguments\<close>

text \<open>
  The \<open>exit\<close> method of the parser. \<open>argparse.ArgumentParser.exit\<close> prints the message, if
  it is not empty, and calls \<open>sys.exit(status)\<close>; \<open>NoExitArgumentParser.exit\<close> prints it and
  raises \<open>ArgparseExitError(status, message)\<close>. The subparsers are of the class of the main
  parser.
\<close>

datatype parser_class = ArgumentParser | NoExitArgumentParser

definition parser_exit :: "parser_class \<Rightarrow> int \<Rightarrow> pystr option \<Rightarrow> world \<Rightarrow> py_exc \<times> world" where
  "parser_exit cls status message w =
     (let w' = (case message of
                  None \<Rightarrow> w
                | Some m \<Rightarrow> if m \<noteq> [] then stream_write Stderr m w else w)
      in case cls of
           ArgumentParser \<Rightarrow> (SystemExit status, w')
         | NoExitArgumentParser \<Rightarrow> (new_ArgparseExitError status message, w'))"

definition parse_args ::
    "parser_class \<Rightarrow> pystr list option \<Rightarrow> world
       \<Rightarrow> (py_exc + namespace \<times> subcommand option) \<times> world" where
  "parse_args cls argv w =
     (case argparse w (case argv of None \<Rightarrow> sys_argv w | Some a \<Rightarrow> a) of
        Recognized args sub \<Rightarrow> (Inr (args, sub), w)
      | CallsExit out err status message \<Rightarrow>
          (case parser_exit cls status message
                  (stream_write Stderr err (stream_write Stdout out w)) of
             (ex, w') \<Rightarrow> (Inl ex, w')))"

subsection \<open>Logging\<close>

text \<open>
  \<open>logging.basicConfig(level=...)\<close> configures the root logger only when it has no handler
  yet; otherwise it leaves the root logger as it is. \<open>level_number\<close> is the level that
  \<open>logging\<close> gives to the upper-cased name.
\<close>

fun level_number :: "loglevel \<Rightarrow> int" where
  "level_number Critical = 50"
| "level_number Error = 40"
| "level_number Warning = 30"
| "level_number Info = 20"
| "level_number Debug = 10"

definition logging_INFO :: int where
  "logging_INFO = 20"

definition logging_WARNING :: int where
  "logging_WARNING = 30"

definition basicConfig :: "int \<Rightarrow> world \<Rightarrow> world" where
  "basicConfig level w =
     (if root_handlers w = 0 then w\<lparr>root_level := level, root_handlers := 1\<rparr> else w)"

definition setLevel :: "pystr \<Rightarrow> int \<Rightarrow> world \<Rightarrow> world" where
  "setLevel name level w = w\<lparr>logger_level := (logger_level w)(name \<mapsto> level)\<rparr>"

definition chatty_loggers :: "pystr list" where
  "chatty_loggers =
     [lit ''botocore.hooks'', lit ''botocore.parsers'', lit ''botocore.auth'',
      lit ''botocore.endpoint'', lit ''botocore.httpsession'', lit ''botocore.loaders'',
      lit ''botocore.retryhandler'', lit ''botocore.utils'', lit ''botocore.client'',
      lit ''botocore.session'', lit ''botocore.handlers'', lit ''botocore.awsrequest'',
      lit ''botocore.regions'', lit ''urllib3.connectionpool'', lit ''s3transfer.utils'',
      lit ''s3transfer.tasks'', lit ''s3transfer.futures'']"

definition configure_logging :: "namespace \<Rightarrow> world \<Rightarrow> world" where
  "configure_logging args w =
     (let w1 = basicConfig (level_number (ns_loglevel args)) w;
          logLevel = root_level w1;
          w2 = fold (\<lambda>modname. setLevel modname (max logLevel logging_INFO)) chatty_loggers w1
      in setLevel (lit ''botocore.credentials'') (max logLevel logging_WARNING) w2)"

subsection \<open>\<open>run\<close>\<close>

text \<open>The body of the second \<open>try\<close> up to the call of the handler.\<close>

definition run_setup :: "namespace \<Rightarrow> cli \<Rightarrow> world \<Rightarrow> cli \<times> world" where
  "run_setup args self w =
     (let self1 = self\<lparr>self_args := Some args, self_raw_stdout := Stdout,
                       self_raw_stderr := Stderr, self_raw := ns_raw args,
                       self_compact := ns_compact args,
                       self_output_file := ns_output_file args,
                       self_encoding := ns_text_encoding args\<rparr>;
          (self2, w2) =
            (if \<not> ns_monochrome args then
               (let self2 = self1\<lparr>self_colorize_stdout := is_colorizable Stdout w,
                                   self_colorize_stderr := is_colorizable Stderr w\<rparr>
                in if self_colorize_stdout self2 \<or> self_colorize_stderr self2 then
                     (let w1 = w\<lparr>colorama_initialised := True\<rparr>;
                          w2 = (if self_colorize_stdout self2 \<and> should_wrap w1 Stdout
                                then w1\<lparr>sys_stdout_wrapped := True\<rparr> else w1);
                          w3 = (if self_colorize_stderr self2 \<and> should_wrap w2 Stderr
                                then w2\<lparr>sys_stderr_wrapped := True\<rparr> else w2)
                      in (self2, w3))
                   else (self2, w))
             else (self1, w))
      in (self2\<lparr>self_cwd := Some (abspath_expanduser w (ns_cwd args))\<rparr>, w2))"

text \<open>The \<open>except Exception\<close> clause; a failure that is no \<open>Exception\<close> passes through.\<close>

definition run_except ::
    "bool \<Rightarrow> py_exc \<Rightarrow> cli \<Rightarrow> world \<Rightarrow> (py_exc + int) \<times> cli \<times> world" where
  "run_except traceback ex self w =
     (if \<not> is_Exception ex then (Inl ex, self, w)
      else (let rc = (case exit_code ex of Some c \<Rightarrow> c | None \<Rightarrow> 1)
            in if rc \<noteq> 0 then
                 (if traceback then (Inl ex, self, w)
                  else (Inr rc, self,
                        print (ecolor self Fore_RED @ lit ''lambda-venv: error: ''
                               @ str_exc (signal_repr w) ex @ ecolor self Style_RESET_ALL)
                          Stderr w))
               else (Inr rc, self, w)))"

text \<open>
  The method \<open>run\<close>, for a parser of class \<open>cls\<close> and handlers \<open>table\<close>; in the source the
  parser is an \<open>argparse.ArgumentParser\<close> and the handlers are those of \<open>func_of\<close>.
\<close>

definition cli_run_with ::
    "parser_class \<Rightarrow> (subcommand option \<Rightarrow> handler) \<Rightarrow> cli \<Rightarrow> world
       \<Rightarrow> (py_exc + int) \<times> cli \<times> world" where
  "cli_run_with cls table self w =
     (case parse_args cls (self_argv self) w of
        (Inl ex, w1) \<Rightarrow>
          (case ex of
             ArgparseExitError c m \<Rightarrow> (Inr c, self, w1)
           | _ \<Rightarrow> (Inl ex, self, w1))
      | (Inr (args, sub), w1) \<Rightarrow>
          (let w2 = configure_logging args w1;
               traceback = ns_traceback args
           in case run_setup args self w2 of
                (self', w3) \<Rightarrow>
                  (case table sub self' w3 of
                     (Inr rc, self'', w4) \<Rightarrow> (Inr rc, self'', w4)
                   | (Inl ex, self'', w4) \<Rightarrow> run_except traceback ex self'' w4)))"

definition cli_run :: "cli \<Rightarrow> world \<Rightarrow> (py_exc + int) \<times> cli \<times> world" where
  "cli_run = cli_run_with ArgumentParser func_of"

text \<open>The function \<open>run\<close> of the module: \<open>except CmdExitError\<close> around the method.\<close>

definition run_with ::
    "parser_class \<Rightarrow> (subcommand option \<Rightarrow> handler) \<Rightarrow> pystr list option \<Rightarrow> world
       \<Rightarrow> (py_exc + int) \<times> world" where
  "run_with cls table argv w =
     (case cli_run_with cls table (CommandLineInterface argv) w of
        (Inr rc, self, w') \<Rightarrow> (Inr rc, w')
      | (Inl ex, self, w') \<Rightarrow>
          (case exit_code ex of
             Some c \<Rightarrow> (Inr c, w')
           | None \<Rightarrow> (Inl ex, w')))"

definition run :: "pystr list option \<Rightarrow> world \<Rightarrow> (py_exc + int) \<times> world" where
  "run = run_with ArgumentParser func_of"

section \<open>\<open>json.loads\<close>\<close>





















section \<open>Notions for the rendered text\<close>















section \<open>Example surroundings\<close>

text \<open>
  The defaults of the declared options, the answers of \<open>argparse\<close> on a few argument lists
  (every other list stands for an argument error), a process with no terminal, a \<open>jq\<close> that
  echoes its input, and handlers that raise a given failure.
\<close>

definition default_namespace :: namespace where
  "default_namespace =
     \<lparr>ns_traceback = False, ns_loglevel = Warning, ns_monochrome = False,
      ns_compact = False, ns_raw = False, ns_output_file = None,
      ns_text_encoding = lit ''utf-8'', ns_cwd = lit ''.'',
      ns_aws_profile = None, ns_aws_region = None, ns_venv_dir = None\<rparr>"

definition example_argparse :: "pystr list \<Rightarrow> parse_outcome" where
  "example_argparse argv =
     (if argv = [] then Recognized default_namespace None
      else if argv = [lit ''version''] then Recognized default_namespace (Some Version)
      else if argv = [lit ''test''] then Recognized default_namespace (Some Test)
      else if argv = [lit ''--tb'', lit ''test'']
        then Recognized (default_namespace\<lparr>ns_traceback := True\<rparr>) (Some Test)
      else if argv = [lit ''--loglevel'', lit ''debug'']
        then Recognized (default_namespace\<lparr>ns_loglevel := Debug\<rparr>) None
      else if argv = [lit ''--help'']
        then CallsExit (lit ''usage: lambda-venv [-h] ...'') [] 0 None
      else CallsExit [] (lit ''usage: lambda-venv [-h] ...'') 2
             (Some (lit ''lambda-venv: error: invalid arguments'' @ [10])))"

definition example_world :: world where
  "example_world =
     \<lparr>stdout_text = [], stderr_text = [], files = Map.empty,
      sys_stdout_wrapped = False, sys_stderr_wrapped = False,
      colorama_initialised = False,
      root_level = 30, root_handlers = 0, logger_level = Map.empty,
      session_calls = [], client_calls = [],
      sys_argv = [], argparse = example_argparse,
      stdout_isatty = False, stderr_isatty = False, should_wrap = (\<lambda>f. False),
      open_error = (\<lambda>path enc. None),
      popen = (\<lambda>cmd inp. Exited 0 (inp @ [10])),
      session_error = (\<lambda>n. None), client_error = (\<lambda>n. None),
      abspath_expanduser = (\<lambda>p. lit ''/work''),
      signal_repr = (\<lambda>n. None),
      repr_vars = (\<lambda>args. lit ''{...}''),
      pkg_version = lit ''1.0.0''\<rparr>"

definition cmd_raise :: "py_exc \<Rightarrow> handler" where
  "cmd_raise ex self w = (Inl ex, self, w)"

definition example_table :: "py_exc \<Rightarrow> subcommand option \<Rightarrow> handler" where
  "example_table ex sub = (case sub of Some Test \<Rightarrow> cmd_raise ex | _ \<Rightarrow> func_of sub)"

section \<open>Properties\<close>

subsection \<open>Auxiliary facts\<close>

lemma lit_Nil: "lit [] = []"
  by (simp add: lit_def)

lemma lit_Cons: "lit (c # cs) = of_char c # lit cs"
  by (simp add: lit_def)

lemma fold_setLevel:
  "fold (\<lambda>m. setLevel m l) ms w =
     w\<lparr>logger_level := fold (\<lambda>m f. f(m \<mapsto> l)) ms (logger_level w)\<rparr>"
  by (induction ms arbitrary: w) (simp_all add: setLevel_def)

lemma configure_logging_eq:
  "configure_logging args w =
     (let r = (if root_handlers w = 0 then level_number (ns_loglevel args) else root_level w)
      in w\<lparr>root_level := r,
            root_handlers := (if root_handlers w = 0 then 1 else root_handlers w),
            logger_level :=
              (fold (\<lambda>m f. f(m \<mapsto> max r logging_INFO)) chatty_loggers (logger_level w))
                (lit ''botocore.credentials'' \<mapsto> max r logging_WARNING)\<rparr>)"
  by (simp add: configure_logging_def basicConfig_def fold_setLevel setLevel_def Let_def)

lemma run_setup_world:
  "snd (run_setup args self w) =
     (if \<not> ns_monochrome args \<and> (stdout_isatty w \<or> stderr_isatty w)
      then w\<lparr>colorama_initialised := True,
             sys_stdout_wrapped :=
               (sys_stdout_wrapped w \<or> (stdout_isatty w \<and> should_wrap w Stdout)),
             sys_stderr_wrapped :=
               (sys_stderr_wrapped w \<or> (stderr_isatty w \<and> should_wrap w Stderr))\<rparr>
      else w)"
  by (auto simp: run_setup_def Let_def is_colorizable_def split: prod.splits)

lemma run_setup_self:
  "fst (run_setup args self w) =
     self\<lparr>self_args := Some args, self_raw_stdout := Stdout, self_raw_stderr := Stderr,
          self_raw := ns_raw args, self_compact := ns_compact args,
          self_output_file := ns_output_file args, self_encoding := ns_text_encoding args,
          self_colorize_stdout :=
            (if ns_monochrome args then self_colorize_stdout self else stdout_isatty w),
          self_colorize_stderr :=
            (if ns_monochrome args then self_colorize_stderr self else stderr_isatty w),
          self_cwd := Some (abspath_expanduser w (ns_cwd args))\<rparr>"
  by (auto simp: run_setup_def Let_def is_colorizable_def split: prod.splits)

lemma parse_args_Recognized:
  "argparse w (case argv of None \<Rightarrow> sys_argv w | Some a \<Rightarrow> a) = Recognized args sub
   \<Longrightarrow> parse_args cls argv w = (Inr (args, sub), w)"
  by (simp add: parse_args_def)

lemma cli_run_with_dispatch:
  assumes "argparse w (case self_argv self of None \<Rightarrow> sys_argv w | Some a \<Rightarrow> a)
             = Recognized args sub"
  shows "cli_run_with cls table self w =
           (case table sub (fst (run_setup args self (configure_logging args w)))
                   (snd (run_setup args self (configure_logging args w))) of
              (Inr rc, self'', w4) \<Rightarrow> (Inr rc, self'', w4)
            | (Inl ex, self'', w4) \<Rightarrow> run_except (ns_traceback args) ex self'' w4)"
  by (simp add: cli_run_with_def parse_args_Recognized[OF assms] Let_def split: prod.splits)

subsection \<open>Early exit of the argument parser\<close>

text \<open>
  C1. The claim: when the grammar parser terminates early, \<open>run\<close> returns the exit code the
  parser carries. The parser that \<open>run\<close> builds is a plain \<open>argparse.ArgumentParser\<close>, whose
  \<open>exit\<close> raises \<open>SystemExit\<close>; the clause \<open>except ArgparseExitError\<close> does not catch it, and
  neither does the function \<open>run\<close> of the module. For the argument list \<open>--help\<close> both the
  method and the function end in \<open>SystemExit(0)\<close> instead of returning 0. With the class
  \<open>NoExitArgumentParser\<close>, which the module defines and does not use, 0 is returned.
\<close>

theorem help_exits_through_SystemExit:
  "fst (cli_run (CommandLineInterface (Some [lit ''--help''])) example_world)
     = Inl (SystemExit 0)
   \<and> fst (run (Some [lit ''--help'']) example_world) = Inl (SystemExit 0)
   \<and> fst (run_with NoExitArgumentParser func_of (Some [lit ''--help'']) example_world)
       = Inr 0"
  by (simp add: run_def run_with_def cli_run_def cli_run_with_def parse_args_def parser_exit_def
      CommandLineInterface_def example_world_def example_argparse_def lit_Nil lit_Cons
      new_ArgparseExitError_def)

subsection \<open>No subcommand\<close>



lemma exit_code_iff: "is_CmdExitError ex \<longleftrightarrow> exit_code ex \<noteq> None"
  by (cases ex) simp_all

subsection \<open>The function \<open>run\<close> of the module\<close>

text \<open>
  C10. Every \<open>CmdExitError\<close> (its subclass \<open>ArgparseExitError\<close> included) that leaves the
  method \<open>run\<close>, in particular one re-raised in traceback mode, is caught by the function
  \<open>run\<close> of the module, which returns its exit code; a failure that leaves the function is
  no \<open>CmdExitError\<close>.
\<close>

theorem module_run_catches_CmdExitError:
  "(\<forall>ex self' w'. cli_run_with cls table (CommandLineInterface argv) w = (Inl ex, self', w')
        \<and> is_CmdExitError ex
      \<longrightarrow> (\<exists>c. exit_code ex = Some c \<and> run_with cls table argv w = (Inr c, w')))
   \<and> (\<forall>ex. fst (run_with cls table argv w) = Inl ex \<longrightarrow> \<not> is_CmdExitError ex)"
  by (auto simp: run_with_def exit_code_iff split: prod.splits sum.splits option.splits)

theorem module_run_catches_CmdExitError_witness:
  "fst (cli_run_with ArgumentParser (example_table (new_CmdExitError 3 None))
       (CommandLineInterface (Some [lit ''--tb'', lit ''test''])) example_world)
     = Inl (new_CmdExitError 3 None)
   \<and> fst (run_with ArgumentParser (example_table (new_CmdExitError 3 None))
            (Some [lit ''--tb'', lit ''test'']) example_world) = Inr 3"
proof -
  let ?args = "default_namespace\<lparr>ns_traceback := True\<rparr>"
  let ?self = "CommandLineInterface (Some [lit ''--tb'', lit ''test''])"
  let ?table = "example_table (new_CmdExitError 3 None)"
  have a: "argparse example_world
             (case self_argv ?self of None \<Rightarrow> sys_argv example_world | Some a \<Rightarrow> a)
           = Recognized ?args (Some Test)"
    by (simp add: example_world_def example_argparse_def CommandLineInterface_def lit_Nil lit_Cons)
  have b: "fst (cli_run_with ArgumentParser ?table ?self example_world)
             = Inl (new_CmdExitError 3 None)"
    by (simp add: cli_run_with_dispatch[OF a] example_table_def cmd_raise_def run_except_def
        new_CmdExitError_def default_namespace_def split: prod.splits)
  then obtain self' w' where c:
    "cli_run_with ArgumentParser ?table ?self example_world
       = (Inl (new_CmdExitError 3 None), self', w')"
    by (cases "cli_run_with ArgumentParser ?table ?self example_world") auto
  from module_run_catches_CmdExitError[of ArgumentParser ?table
      "Some [lit ''--tb'', lit ''test'']" example_world] c
  have "fst (run_with ArgumentParser ?table (Some [lit ''--tb'', lit ''test'']) example_world)
          = Inr 3"
    by (auto simp: new_CmdExitError_def)
  with b show ?thesis by simp
qed

lemma cli_run_with_raise:
  assumes parsed: "argparse w (case self_argv self of None \<Rightarrow> sys_argv w | Some a \<Rightarrow> a)
                     = Recognized args sub"
    and prepared: "run_setup args self (configure_logging args w) = (self1, w1)"
    and raised: "table sub self1 w1 = (Inl ex, self2, w2)"
  shows "cli_run_with cls table self w = run_except (ns_traceback args) ex self2 w2"
  using prepared raised
  by (simp add: cli_run_with_dispatch[OF parsed])

subsection \<open>Failures of the command handler\<close>

text \<open>
  C2. Let the dispatched handler raise a failure \<open>ex\<close> (an instance of \<open>Exception\<close>). The
  resulting code \<open>rc\<close> is the exit code of \<open>ex\<close> if \<open>ex\<close> is a \<open>CmdExitError\<close> and 1 otherwise.
  When \<open>rc\<close> is not 0 and traceback mode is off, the run returns \<open>rc\<close> after writing to the
  standard error exactly the line \<open>lambda-venv: error: \<close> followed by \<open>str(ex)\<close>, enclosed in
  the red and reset codes exactly when the standard error is colorized. When \<open>rc\<close> is not 0
  and traceback mode is on, \<open>ex\<close> itself leaves the run and nothing is written. (When \<open>rc\<close>
  is 0 the run returns 0, see C7.)
\<close>

theorem handler_failure_to_exit_code:
  assumes parsed: "argparse w (case self_argv self of None \<Rightarrow> sys_argv w | Some a \<Rightarrow> a)
                     = Recognized args sub"
    and prepared: "run_setup args self (configure_logging args w) = (self1, w1)"
    and raised: "table sub self1 w1 = (Inl ex, self2, w2)"
    and exc: "is_Exception ex"
  shows "cli_run_with cls table self w =
           (let rc = (case exit_code ex of Some c \<Rightarrow> c | None \<Rightarrow> 1)
            in if rc = 0 then (Inr 0, self2, w2)
               else if ns_traceback args then (Inl ex, self2, w2)
               else (Inr rc, self2,
                     w2\<lparr>stderr_text := stderr_text w2
                          @ (if self_colorize_stderr self2 then Fore_RED else [])
                          @ lit ''lambda-venv: error: '' @ str_exc (signal_repr w2) ex
                          @ (if self_colorize_stderr self2 then Style_RESET_ALL else [])
                          @ [10]\<rparr>))
         \<and> (is_CmdExitError ex \<longleftrightarrow> exit_code ex \<noteq> None)"
  using prepared raised exc
  using exc
  by (simp add: cli_run_with_raise[where table = table, OF parsed prepared raised] run_except_def Let_def print_def
      stream_write_def ecolor_def exit_code_iff)

theorem handler_failure_to_exit_code_witness:
  "cli_run_with ArgumentParser (example_table (OtherException (lit ''ValueError'') (lit ''boom'')))
       (CommandLineInterface (Some [lit ''test''])) example_world
   = (Inr 1,
      fst (run_setup default_namespace (CommandLineInterface (Some [lit ''test'']))
             (configure_logging default_namespace example_world)),
      (snd (run_setup default_namespace (CommandLineInterface (Some [lit ''test'']))
             (configure_logging default_namespace example_world)))
        \<lparr>stderr_text := lit ''lambda-venv: error: boom'' @ [10]\<rparr>)"
proof -
  let ?ex = "OtherException (lit ''ValueError'') (lit ''boom'')"
  let ?self = "CommandLineInterface (Some [lit ''test''])"
  let ?s1 = "fst (run_setup default_namespace ?self
                    (configure_logging default_namespace example_world))"
  let ?w1 = "snd (run_setup default_namespace ?self
                    (configure_logging default_namespace example_world))"
  have a: "argparse example_world
             (case self_argv ?self of None \<Rightarrow> sys_argv example_world | Some a \<Rightarrow> a)
           = Recognized default_namespace (Some Test)"
    by (simp add: example_world_def example_argparse_def CommandLineInterface_def lit_Nil lit_Cons)
  have b: "run_setup default_namespace ?self (configure_logging default_namespace example_world)
             = (?s1, ?w1)"
    by simp
  have c: "example_table ?ex (Some Test) ?s1 ?w1 = (Inl ?ex, ?s1, ?w1)"
    by (simp add: example_table_def cmd_raise_def)
  have d: "is_Exception ?ex"
    by simp
  have e: "\<not> self_colorize_stderr ?s1" "stderr_text ?w1 = []" "\<not> ns_traceback default_namespace"
    by (simp_all add: run_setup_self run_setup_world configure_logging_eq Let_def
        example_world_def default_namespace_def CommandLineInterface_def)
  show ?thesis
    using handler_failure_to_exit_code[where table = "example_table ?ex" and cls = ArgumentParser, OF a b c d] e
    by (simp add: Let_def lit_Nil lit_Cons)
qed

text \<open>
  C7. When the handler raises a \<open>CmdExitError\<close> with exit code 0, the method and the function
  \<open>run\<close> return 0 and leave the streams as the handler left them (no error line), with
  traceback mode on or off. With an exit code \<open>c\<close> other than 0 the run fails: the method
  returns \<open>c\<close> or, in traceback mode, lets the failure out, and the function returns \<open>c\<close>.
\<close>

theorem exit_signal_zero_returns_zero:
  assumes parsed: "argparse w (case argv of None \<Rightarrow> sys_argv w | Some a \<Rightarrow> a)
                     = Recognized args sub"
    and prepared: "run_setup args (CommandLineInterface argv) (configure_logging args w) = (self1, w1)"
    and raised: "table sub self1 w1 = (Inl ex, self2, w2)"
    and code: "exit_code ex = Some c"
  shows "(c = 0 \<longrightarrow> cli_run_with cls table (CommandLineInterface argv) w = (Inr 0, self2, w2)
                  \<and> run_with cls table argv w = (Inr 0, w2))
       \<and> (c \<noteq> 0 \<longrightarrow> fst (cli_run_with cls table (CommandLineInterface argv) w)
                        = (if ns_traceback args then Inl ex else Inr c)
                  \<and> fst (run_with cls table argv w) = Inr c)"
proof -
  have a: "argparse w (case self_argv (CommandLineInterface argv) of
                         None \<Rightarrow> sys_argv w | Some a \<Rightarrow> a) = Recognized args sub"
    using parsed by (simp add: CommandLineInterface_def)
  have b: "is_Exception ex"
    using code by (cases ex) simp_all
  show ?thesis
    using b code
    by (simp add: run_with_def cli_run_with_raise[where table = table, OF a prepared raised] run_except_def Let_def)
qed

theorem exit_signal_zero_returns_zero_witness:
  "run_with ArgumentParser (example_table (new_CmdExitError 0 None))
       (Some [lit ''--tb'', lit ''test'']) example_world
   = (Inr 0, snd (run_setup (default_namespace\<lparr>ns_traceback := True\<rparr>)
                    (CommandLineInterface (Some [lit ''--tb'', lit ''test'']))
                    (configure_logging (default_namespace\<lparr>ns_traceback := True\<rparr>)
                       example_world)))"
proof -
  let ?ex = "new_CmdExitError 0 None"
  let ?args = "default_namespace\<lparr>ns_traceback := True\<rparr>"
  let ?argv = "Some [lit ''--tb'', lit ''test'']"
  let ?s1 = "fst (run_setup ?args (CommandLineInterface ?argv)
                    (configure_logging ?args example_world))"
  let ?w1 = "snd (run_setup ?args (CommandLineInterface ?argv)
                    (configure_logging ?args example_world))"
  have a: "argparse example_world
             (case ?argv of None \<Rightarrow> sys_argv example_world | Some a \<Rightarrow> a)
           = Recognized ?args (Some Test)"
    by (simp add: example_world_def example_argparse_def lit_Nil lit_Cons)
  have b: "run_setup ?args (CommandLineInterface ?argv) (configure_logging ?args example_world)
             = (?s1, ?w1)"
    by simp
  have c: "example_table ?ex (Some Test) ?s1 ?w1 = (Inl ?ex, ?s1, ?w1)"
    by (simp add: example_table_def cmd_raise_def)
  have d: "exit_code ?ex = Some 0"
    by (simp add: new_CmdExitError_def)
  show ?thesis
    using exit_signal_zero_returns_zero[where table = "example_table ?ex"
        and cls = ArgumentParser, OF a b c d]
    by simp
qed

subsection \<open>Logging levels\<close>

lemma fold_upd_notin:
  "m \<notin> set ms \<Longrightarrow> fold (\<lambda>m f. f(m \<mapsto> l)) ms g m = g m"
  by (induction ms arbitrary: g) auto

lemma fold_upd_in:
  "m \<in> set ms \<Longrightarrow> fold (\<lambda>m f. f(m \<mapsto> l)) ms g m = Some l"
proof (induction ms arbitrary: g)
  case Nil
  then show ?case by simp
next
  case (Cons a ms)
  have step: "fold (\<lambda>m f. f(m \<mapsto> l)) (a # ms) g = fold (\<lambda>m f. f(m \<mapsto> l)) ms (g(a \<mapsto> l))"
    by (simp only: fold_simps comp_def)
  show ?case
  proof (cases "m \<in> set ms")
    case True
    then show ?thesis
      unfolding step by (rule Cons.IH)
  next
    case False
    with Cons.prems have "m = a" by simp
    have "fold (\<lambda>m f. f(m \<mapsto> l)) ms (g(a \<mapsto> l)) m = (g(a \<mapsto> l)) m"
      using False by (rule fold_upd_notin)
    also have "\<dots> = Some l"
      using \<open>m = a\<close> by simp
    finally show ?thesis
      unfolding step .
  qed
qed

lemma credentials_not_chatty: "lit ''botocore.credentials'' \<notin> set chatty_loggers"
  by (simp add: chatty_loggers_def lit_Nil lit_Cons)

lemma write_dest_logging:
  "logger_level (write_dest f t w) = logger_level w"
  "root_level (write_dest f t w) = root_level w"
  by (simp_all add: write_dest_def stream_write_def split: dest.splits stream.splits)

lemma emit_to_logging:
  "logger_level (snd (emit_to self val c col f w)) = logger_level w"
  "root_level (snd (emit_to self val c col f w)) = root_level w"
  by (simp_all add: emit_to_def Let_def write_dest_logging split: popen_outcome.splits)

lemma pretty_print_logging:
  "logger_level (snd (pretty_print self val c col raw w)) = logger_level w"
  "root_level (snd (pretty_print self val c col raw w)) = root_level w"
  by (simp_all add: pretty_print_def Let_def stream_write_def emit_to_logging
      split: option.splits stream.splits)

lemma func_of_logging:
  "logger_level (snd (snd (func_of sub self w))) = logger_level w"
  "root_level (snd (snd (func_of sub self w))) = root_level w"
proof -
  have v: "logger_level (snd (snd (cmd_version self w))) = logger_level w
           \<and> root_level (snd (snd (cmd_version self w))) = root_level w"
    using pretty_print_logging[of self "JStr (pkg_version w)" None None None w]
    by (cases "pretty_print self (JStr (pkg_version w)) None None None w")
       (simp add: cmd_version_def split: sum.splits)
  have b: "logger_level (snd (snd (cmd_bare self w))) = logger_level w
           \<and> root_level (snd (snd (cmd_bare self w))) = root_level w"
    by (simp add: cmd_bare_def print_def stream_write_def)
  have t: "logger_level (snd (snd (cmd_test self w))) = logger_level w
           \<and> root_level (snd (snd (cmd_test self w))) = root_level w"
    by (simp add: cmd_test_def print_def stream_write_def split: option.splits)
  show "logger_level (snd (snd (func_of sub self w))) = logger_level w"
    using v b t by (simp add: func_of_def split: option.splits subcommand.splits)
  show "root_level (snd (snd (func_of sub self w))) = root_level w"
    using v b t by (simp add: func_of_def split: option.splits subcommand.splits)
qed

lemma run_except_logging:
  "logger_level (snd (snd (run_except tb ex self w))) = logger_level w"
  "root_level (snd (snd (run_except tb ex self w))) = root_level w"
  by (simp_all add: run_except_def Let_def print_def stream_write_def)

lemma run_logging:
  assumes "argparse w (case argv of None \<Rightarrow> sys_argv w | Some a \<Rightarrow> a) = Recognized args sub"
  shows "logger_level (snd (run argv w)) = logger_level (configure_logging args w)"
    and "root_level (snd (run argv w)) = root_level (configure_logging args w)"
proof -
  let ?c = "configure_logging args w"
  let ?s1 = "fst (run_setup args (CommandLineInterface argv) ?c)"
  let ?w1 = "snd (run_setup args (CommandLineInterface argv) ?c)"
  have a: "argparse w (case self_argv (CommandLineInterface argv) of
                         None \<Rightarrow> sys_argv w | Some a \<Rightarrow> a) = Recognized args sub"
    using assms by (simp add: CommandLineInterface_def)
  have frame: "logger_level ?w1 = logger_level ?c" "root_level ?w1 = root_level ?c"
    by (simp_all add: run_setup_world)
  obtain r s2 w2 where h: "func_of sub ?s1 ?w1 = (r, s2, w2)"
    by (cases "func_of sub ?s1 ?w1") auto
  have hw: "logger_level w2 = logger_level ?c" "root_level w2 = root_level ?c"
    using func_of_logging[of sub ?s1 ?w1] frame h by simp_all
  have "logger_level (snd (run argv w)) = logger_level ?c
        \<and> root_level (snd (run argv w)) = root_level ?c"
  proof (cases r)
    case (Inr rc)
    then show ?thesis
      using h hw by (simp add: run_def run_with_def cli_run_with_dispatch[OF a])
  next
    case (Inl ex)
    obtain r' s3 w3 where e: "run_except (ns_traceback args) ex s2 w2 = (r', s3, w3)"
      by (cases "run_except (ns_traceback args) ex s2 w2") auto
    have "logger_level w3 = logger_level ?c" "root_level w3 = root_level ?c"
      using run_except_logging[of "ns_traceback args" ex s2 w2] e hw by simp_all
    then show ?thesis
      using h Inl e
      by (simp add: run_def run_with_def cli_run_with_dispatch[OF a]
          split: sum.splits option.splits)
  qed
  then show "logger_level (snd (run argv w)) = logger_level ?c"
    and "root_level (snd (run argv w)) = root_level ?c"
    by simp_all
qed

text \<open>
  C8. In a process whose root logger has no handler yet (a fresh process, as the
  specification assumes for a run; \<open>logging.basicConfig\<close> changes nothing otherwise), after
  the configuration step and still at the end of the run with the handlers of the source:
  the root level is the requested level, every logger of the fixed list has the level
  \<open>max(requested, INFO)\<close>, and \<open>botocore.credentials\<close> has \<open>max(requested, WARNING)\<close>.
\<close>

theorem chatty_loggers_at_least_INFO:
  assumes fresh: "root_handlers w = 0"
    and parsed: "argparse w (case argv of None \<Rightarrow> sys_argv w | Some a \<Rightarrow> a)
                   = Recognized args sub"
    and state: "w' = configure_logging args w \<or> w' = snd (run argv w)"
  shows "root_level w' = level_number (ns_loglevel args)
       \<and> (\<forall>m \<in> set chatty_loggers.
            logger_level w' m = Some (max (level_number (ns_loglevel args)) logging_INFO))
       \<and> logger_level w' (lit ''botocore.credentials'')
            = Some (max (level_number (ns_loglevel args)) logging_WARNING)"
proof -
  let ?c = "configure_logging args w"
  let ?l = "level_number (ns_loglevel args)"
  have r: "root_level ?c = ?l"
    using fresh by (simp add: configure_logging_eq Let_def)
  have ch: "logger_level ?c m = Some (max ?l logging_INFO)" if "m \<in> set chatty_loggers" for m
  proof -
    have "m \<noteq> lit ''botocore.credentials''"
      using that credentials_not_chatty by auto
    then show ?thesis
      using fresh that by (simp add: configure_logging_eq Let_def fold_upd_in)
  qed
  have cr: "logger_level ?c (lit ''botocore.credentials'') = Some (max ?l logging_WARNING)"
    using fresh by (simp add: configure_logging_eq Let_def)
  have same: "logger_level w' = logger_level ?c" "root_level w' = root_level ?c"
    using state run_logging[OF parsed] by auto
  show ?thesis
    using r ch cr same by simp
qed

theorem chatty_loggers_at_least_INFO_witness:
  "root_level (snd (run (Some [lit ''--loglevel'', lit ''debug'']) example_world)) = 10
   \<and> logger_level (snd (run (Some [lit ''--loglevel'', lit ''debug'']) example_world))
        (lit ''botocore.hooks'') = Some 20
   \<and> logger_level (snd (run (Some [lit ''--loglevel'', lit ''debug'']) example_world))
        (lit ''botocore.credentials'') = Some 30"
proof -
  let ?argv = "Some [lit ''--loglevel'', lit ''debug'']"
  let ?args = "default_namespace\<lparr>ns_loglevel := Debug\<rparr>"
  have a: "root_handlers example_world = 0"
    by (simp add: example_world_def)
  have b: "argparse example_world
             (case ?argv of None \<Rightarrow> sys_argv example_world | Some a \<Rightarrow> a)
           = Recognized ?args None"
    by (simp add: example_world_def example_argparse_def lit_Nil lit_Cons)
  have c: "snd (run ?argv example_world) = configure_logging ?args example_world
           \<or> snd (run ?argv example_world) = snd (run ?argv example_world)"
    by simp
  have d: "lit ''botocore.hooks'' \<in> set chatty_loggers"
    by (simp add: chatty_loggers_def)
  show ?thesis
    using chatty_loggers_at_least_INFO[OF a b c] d
    by (simp add: default_namespace_def logging_INFO_def logging_WARNING_def)
qed

subsection \<open>Raw output\<close>



subsection \<open>The memoized session and client\<close>







subsection \<open>The external formatter\<close>

text \<open>
  C6. In a colorized render (structured path, standard output, colorization requested and
  the standard output colorizable) the command is \<open>jq .\<close>, with \<open>-c\<close> exactly in compact
  mode. If the process exits with a return code other than 0, \<open>pretty_print\<close> raises
  \<open>CalledProcessError\<close> with that return code and the command; if it exits with 0,
  \<open>pretty_print\<close> returns.
\<close>

theorem jq_failure_raises_CalledProcessError:
  assumes structured: "(if (case raw of None \<Rightarrow> self_raw self | Some r \<Rightarrow> r) then as_str val
                        else None) = None"
    and to_stdout: "self_output_file self = None"
    and requested: "colorize \<noteq> Some False"
    and colorizable: "self_colorize_stdout self"
    and cmode: "c = (case compact of None \<Rightarrow> self_compact self | Some b \<Rightarrow> b)"
    and exited: "popen w (jq_cmd c) (json_dumps None (Some (lit '','', lit '':'')) True val)
                   = Exited rc out"
  shows "jq_cmd c = (if c then [lit ''jq'', lit ''-c'', lit ''.''] else [lit ''jq'', lit ''.''])
       \<and> (rc \<noteq> 0 \<longrightarrow> fst (pretty_print self val compact colorize raw w)
                          = Inl (CalledProcessError rc (jq_cmd c)))
       \<and> (rc = 0 \<longrightarrow> fst (pretty_print self val compact colorize raw w) = Inr ())"
proof -
  have col: "(case colorize of None \<Rightarrow> True | Some b \<Rightarrow> b)"
    using requested by (cases colorize) auto
  have "pretty_print self val compact colorize raw w
          = emit_to self val c True (ToStream Stdout) w"
    using structured to_stdout col cmode
    by (simp add: pretty_print_def Let_def)
  then show ?thesis
    using colorizable exited
    by (simp add: emit_to_def Let_def jq_cmd_def)
qed

theorem jq_failure_raises_CalledProcessError_witness:
  "fst (pretty_print ((CommandLineInterface None)\<lparr>self_colorize_stdout := True\<rparr>)
         (JList [JInt 1]) None None None
         (example_world\<lparr>popen := (\<lambda>cmd inp. Exited 5 [])\<rparr>))
     = Inl (CalledProcessError 5 [lit ''jq'', lit ''.''])"
proof -
  let ?self = "(CommandLineInterface None)\<lparr>self_colorize_stdout := True\<rparr>"
  let ?w = "example_world\<lparr>popen := (\<lambda>cmd inp. Exited 5 [])\<rparr>"
  have a: "(if (case None of None \<Rightarrow> self_raw ?self | Some r \<Rightarrow> r) then as_str (JList [JInt 1])
            else None) = None"
    by simp
  have b: "self_output_file ?self = None"
    by (simp add: CommandLineInterface_def)
  have c: "(None :: bool option) \<noteq> Some False"
    by simp
  have d: "self_colorize_stdout ?self"
    by simp
  have e: "False = (case None of None \<Rightarrow> self_compact ?self | Some b \<Rightarrow> b)"
    by (simp add: CommandLineInterface_def)
  have f: "popen ?w (jq_cmd False)
             (json_dumps None (Some (lit '','', lit '':'')) True (JList [JInt 1])) = Exited 5 []"
    by simp
  show ?thesis
    using jq_failure_raises_CalledProcessError[OF a b c d e f]
    by simp
qed

subsection \<open>Decoding what \<open>json.dump\<close> wrote\<close>






















































subsection \<open>Equality, key order, whitespace and indentation of the rendered text\<close>




































subsection \<open>The round trip of the rendered text\<close>







end
